theory Spec2Isabelle
  imports Complex_Main "HOL-Library.Log_Nat"
begin

section \<open>Python values and exceptions\<close>

text \<open>
  The transition context of the state machine is a Python dictionary from strings to
  arbitrary values. The values that the condition checkers inspect are the scalar ones:
  \<open>None\<close>, booleans, integers and strings.
\<close>

datatype pyval = PyNone | PyBool bool | PyInt int | PyStr string

type_synonym ctx_dict = "string \<rightharpoonup> pyval"

text \<open>A point in time (a Python \<open>datetime\<close>), in microseconds.\<close>

type_synonym datetime = int

text \<open>The composite key \<open>(order_no, asset_id, operation_no)\<close>.\<close>

type_synonym operation_key = "string \<times> int \<times> string"

text \<open>
  The three messages of \<open>InvalidQuantityException\<close>, each with the two numbers it prints:
  the service's "Processed quantity (p) cannot exceed desired quantity (d)" and
  "Scrap quantity (s) cannot exceed processed quantity (p)", and the storage layer's
  "qty_processed (p) cannot exceed qty_desired (d)".
\<close>

datatype quantity_message =
    ProcessedExceedsDesired int int
  | ScrapExceedsProcessed int int
  | QtyProcessedExceedsQtyDesired int int

text \<open>
  The exceptions of \<open>app/exceptions/mes_exceptions.py\<close>, the built-in ones the code
  raises, SQLAlchemy's \<open>IntegrityError\<close> and pydantic's \<open>ValidationError\<close> (with the
  name of the rejected field). \<open>MESOperationException\<close> carries its
  message and its \<open>error_type\<close>.
\<close>

datatype error =
    ValueError string
  | TypeError
  | ZeroDivisionError
  | OverflowError
  | IntegrityError
  | ValidationError string
  | MESOperationException string string
  | OperationNotFoundException operation_key
  | DuplicateOperationException operation_key
  | InvalidOperationStateException "string option" string
  | InvalidQuantityException quantity_message

fun error_type :: "error \<Rightarrow> string" where
  "error_type (MESOperationException m t) = t"
| "error_type (OperationNotFoundException k) = ''not_found''"
| "error_type (DuplicateOperationException k) = ''duplicate_operation''"
| "error_type (InvalidOperationStateException s a) = ''invalid_state_transition''"
| "error_type (InvalidQuantityException m) = ''invalid_quantity''"
| "error_type e = ''''"

text \<open>Python truthiness, as \<open>not x\<close> and \<open>bool(x)\<close> compute it.\<close>

fun truthy :: "pyval \<Rightarrow> bool" where
  "truthy PyNone = False"
| "truthy (PyBool b) = b"
| "truthy (PyInt i) = (i \<noteq> 0)"
| "truthy (PyStr s) = (s \<noteq> [])"

text \<open>Python \<open>==\<close>: a boolean is the integer 0 or 1; values of unrelated types differ.\<close>

fun py_eq :: "pyval \<Rightarrow> pyval \<Rightarrow> bool" where
  "py_eq PyNone PyNone = True"
| "py_eq (PyBool a) (PyBool b) = (a = b)"
| "py_eq (PyBool a) (PyInt b) = ((if a then 1 else 0) = b)"
| "py_eq (PyInt a) (PyBool b) = (a = (if b then 1 else 0))"
| "py_eq (PyInt a) (PyInt b) = (a = b)"
| "py_eq (PyStr a) (PyStr b) = (a = b)"
| "py_eq x y = False"

text \<open>Lexicographic order of strings by character code.\<close>

fun str_le :: "string \<Rightarrow> string \<Rightarrow> bool" where
  "str_le [] ys = True"
| "str_le (x # xs) [] = False"
| "str_le (x # xs) (y # ys) =
     (if (of_char x :: nat) < of_char y then True
      else if (of_char y :: nat) < of_char x then False
      else str_le xs ys)"

text \<open>Python \<open>a >= b\<close>: numbers with numbers, strings with strings, TypeError otherwise.\<close>

fun py_ge :: "pyval \<Rightarrow> pyval \<Rightarrow> error + bool" where
  "py_ge (PyBool a) (PyBool b) = Inr ((if b then (1::int) else 0) \<le> (if a then 1 else 0))"
| "py_ge (PyBool a) (PyInt b) = Inr (b \<le> (if a then 1 else 0))"
| "py_ge (PyInt a) (PyBool b) = Inr ((if b then 1 else 0) \<le> a)"
| "py_ge (PyInt a) (PyInt b) = Inr (b \<le> a)"
| "py_ge (PyStr a) (PyStr b) = Inr (str_le b a)"
| "py_ge x y = Inl TypeError"

text \<open>\<open>ctx.get(key)\<close> and \<open>ctx.get(key, default)\<close>.\<close>

definition dict_get :: "ctx_dict \<Rightarrow> string \<Rightarrow> pyval \<Rightarrow> pyval" where
  "dict_get ctx k d = (case ctx k of None \<Rightarrow> d | Some v \<Rightarrow> v)"

section \<open>The operation state machine\<close>

datatype OperationStatus = PLANNED | RELEASED | IN_PROGRESS | ON_HOLD | FINISHED | CANCELLED

fun status_value :: "OperationStatus \<Rightarrow> string" where
  "status_value PLANNED = ''PLANNED''"
| "status_value RELEASED = ''RELEASED''"
| "status_value IN_PROGRESS = ''IN_PROGRESS''"
| "status_value ON_HOLD = ''ON_HOLD''"
| "status_value FINISHED = ''FINISHED''"
| "status_value CANCELLED = ''CANCELLED''"

text \<open>\<open>OperationStatus(s)\<close>: the member whose value is \<open>s\<close>; \<open>None\<close> stands for ValueError.\<close>

definition OperationStatus_of :: "string \<Rightarrow> OperationStatus option" where
  "OperationStatus_of s =
     (if s = ''PLANNED'' then Some PLANNED
      else if s = ''RELEASED'' then Some RELEASED
      else if s = ''IN_PROGRESS'' then Some IN_PROGRESS
      else if s = ''ON_HOLD'' then Some ON_HOLD
      else if s = ''FINISHED'' then Some FINISHED
      else if s = ''CANCELLED'' then Some CANCELLED
      else None)"

record StateTransition =
  from_state :: OperationStatus
  to_state :: OperationStatus
  conditions :: "string list"
  effects :: "string list"
  requires_confirmation :: bool

text \<open>\<open>_define_transitions\<close>: the table of outgoing edges of each status.\<close>

fun define_transitions :: "OperationStatus \<Rightarrow> StateTransition list" where
  "define_transitions PLANNED =
     [\<lparr>from_state = PLANNED, to_state = RELEASED,
       conditions = [''has_required_materials'', ''machine_available''],
       effects = [''notify_operator'', ''reserve_capacity''],
       requires_confirmation = False\<rparr>,
      \<lparr>from_state = PLANNED, to_state = CANCELLED,
       conditions = [''authorized_cancellation''],
       effects = [''release_reservations'', ''update_schedule''],
       requires_confirmation = True\<rparr>]"
| "define_transitions RELEASED =
     [\<lparr>from_state = RELEASED, to_state = IN_PROGRESS,
       conditions = [''operator_available'', ''setup_complete''],
       effects = [''start_time_tracking'', ''update_machine_status''],
       requires_confirmation = False\<rparr>,
      \<lparr>from_state = RELEASED, to_state = ON_HOLD,
       conditions = [''hold_reason_provided''],
       effects = [''pause_schedule'', ''notify_planning''],
       requires_confirmation = False\<rparr>,
      \<lparr>from_state = RELEASED, to_state = CANCELLED,
       conditions = [''authorized_cancellation''],
       effects = [''release_reservations'', ''update_schedule''],
       requires_confirmation = True\<rparr>]"
| "define_transitions IN_PROGRESS =
     [\<lparr>from_state = IN_PROGRESS, to_state = FINISHED,
       conditions = [''quality_approved'', ''quantity_complete''],
       effects = [''calculate_actuals'', ''update_inventory'', ''release_capacity''],
       requires_confirmation = False\<rparr>,
      \<lparr>from_state = IN_PROGRESS, to_state = ON_HOLD,
       conditions = [''hold_reason_provided''],
       effects = [''pause_time_tracking'', ''notify_planning''],
       requires_confirmation = False\<rparr>,
      \<lparr>from_state = IN_PROGRESS, to_state = CANCELLED,
       conditions = [''authorized_cancellation'', ''work_stoppage_approved''],
       effects = [''handle_wip'', ''calculate_partial_actuals''],
       requires_confirmation = True\<rparr>]"
| "define_transitions ON_HOLD =
     [\<lparr>from_state = ON_HOLD, to_state = IN_PROGRESS,
       conditions = [''hold_reason_resolved'', ''resources_available''],
       effects = [''resume_time_tracking'', ''update_machine_status''],
       requires_confirmation = False\<rparr>,
      \<lparr>from_state = ON_HOLD, to_state = CANCELLED,
       conditions = [''authorized_cancellation''],
       effects = [''handle_wip'', ''release_reservations''],
       requires_confirmation = True\<rparr>]"
| "define_transitions FINISHED = []"
| "define_transitions CANCELLED = []"

text \<open>
  The table \<open>condition_checkers\<close> of \<open>_check_conditions\<close>: each checker returns the
  Python value its lambda evaluates to (or raises); \<open>None\<close> is a name without a checker.
\<close>

definition condition_checkers :: "string \<Rightarrow> (ctx_dict \<Rightarrow> error + pyval) option" where
  "condition_checkers c =
     (if c = ''has_required_materials'' then
        Some (\<lambda>ctx. Inr (dict_get ctx ''materials_available'' (PyBool True)))
      else if c = ''machine_available'' then
        Some (\<lambda>ctx. Inr (PyBool (\<not> py_eq (dict_get ctx ''machine_status'' PyNone) (PyStr ''DOWN''))))
      else if c = ''authorized_cancellation'' then
        Some (\<lambda>ctx. Inr (PyBool (py_eq (dict_get ctx ''user_role'' PyNone) (PyStr ''supervisor'')
                                  \<or> py_eq (dict_get ctx ''user_role'' PyNone) (PyStr ''manager''))))
      else if c = ''operator_available'' then
        Some (\<lambda>ctx. Inr (dict_get ctx ''operator_assigned'' (PyBool True)))
      else if c = ''setup_complete'' then
        Some (\<lambda>ctx. Inr (PyBool (py_eq (dict_get ctx ''setup_status'' PyNone) (PyStr ''COMPLETE''))))
      else if c = ''hold_reason_provided'' then
        Some (\<lambda>ctx. Inr (PyBool (truthy (dict_get ctx ''hold_reason'' PyNone))))
      else if c = ''quality_approved'' then
        Some (\<lambda>ctx. Inr (PyBool (py_eq (dict_get ctx ''quality_status'' PyNone) (PyStr ''APPROVED''))))
      else if c = ''quantity_complete'' then
        Some (\<lambda>ctx.
          case py_ge (dict_get ctx ''qty_processed'' (PyInt 0)) (dict_get ctx ''qty_desired'' (PyInt 1)) of
            Inl e \<Rightarrow> Inl e
          | Inr b \<Rightarrow> Inr (PyBool b))
      else if c = ''hold_reason_resolved'' then
        Some (\<lambda>ctx. Inr (dict_get ctx ''hold_resolved'' (PyBool False)))
      else if c = ''resources_available'' then
        Some (\<lambda>ctx. Inr (dict_get ctx ''resources_ready'' (PyBool True)))
      else if c = ''work_stoppage_approved'' then
        Some (\<lambda>ctx. Inr (dict_get ctx ''stoppage_approved'' (PyBool False)))
      else None)"

text \<open>The loop of \<open>_check_conditions\<close> over \<open>transition.conditions\<close>.\<close>

fun check_condition_list :: "string list \<Rightarrow> ctx_dict \<Rightarrow> error + bool" where
  "check_condition_list [] ctx = Inr True"
| "check_condition_list (c # cs) ctx =
     (case condition_checkers c of
        None \<Rightarrow> check_condition_list cs ctx
      | Some checker \<Rightarrow>
          (case checker ctx of
             Inl e \<Rightarrow> Inl e
           | Inr v \<Rightarrow> if \<not> truthy v then Inr False else check_condition_list cs ctx))"

definition check_conditions :: "StateTransition \<Rightarrow> ctx_dict \<Rightarrow> error + bool" where
  "check_conditions transition ctx = check_condition_list (conditions transition) ctx"

text \<open>\<open>context or {}\<close>: a missing context is the empty dictionary.\<close>

definition context_or_empty :: "ctx_dict option \<Rightarrow> ctx_dict" where
  "context_or_empty c = (case c of None \<Rightarrow> Map.empty | Some ctx \<Rightarrow> ctx)"

text \<open>The first transition of a list that leads to the given status.\<close>

definition find_transition :: "StateTransition list \<Rightarrow> OperationStatus \<Rightarrow> StateTransition option" where
  "find_transition ts to_status = find (\<lambda>t. to_state t = to_status) ts"

definition can_transition :: "string \<Rightarrow> string \<Rightarrow> ctx_dict option \<Rightarrow> error + bool" where
  "can_transition from_s to_s ctx =
     (case OperationStatus_of from_s of
        None \<Rightarrow> Inr False
      | Some from_status \<Rightarrow>
          (case OperationStatus_of to_s of
             None \<Rightarrow> Inr False
           | Some to_status \<Rightarrow>
               if from_status = to_status then Inr True
               else (case find_transition (define_transitions from_status) to_status of
                       Some transition \<Rightarrow> check_conditions transition (context_or_empty ctx)
                     | None \<Rightarrow> Inr False)))"

definition get_valid_transitions :: "string \<Rightarrow> string list" where
  "get_valid_transitions current_state =
     (case OperationStatus_of current_state of
        None \<Rightarrow> []
      | Some current_status \<Rightarrow> map (\<lambda>t. status_value (to_state t)) (define_transitions current_status))"

definition is_terminal_state :: "string \<Rightarrow> bool" where
  "is_terminal_state s =
     (case OperationStatus_of s of
        None \<Rightarrow> False
      | Some status \<Rightarrow> status \<in> {FINISHED, CANCELLED})"

text \<open>
  \<open>_execute_single_effect\<close> looks the handler up and calls it; every handler, and the
  branch for an unknown name, only writes a log line. \<open>_execute_effects\<close> collects the
  names whose call did not raise.
\<close>

definition effect_handlers :: "string list" where
  "effect_handlers =
     [''notify_operator'', ''reserve_capacity'', ''release_reservations'', ''update_schedule'',
      ''start_time_tracking'', ''update_machine_status'', ''pause_schedule'', ''notify_planning'',
      ''calculate_actuals'', ''update_inventory'', ''release_capacity'', ''pause_time_tracking'',
      ''handle_wip'', ''calculate_partial_actuals'', ''resume_time_tracking'']"

definition execute_single_effect :: "string \<Rightarrow> ctx_dict \<Rightarrow> string option \<Rightarrow> error + unit" where
  "execute_single_effect effect ctx user = (if effect \<in> set effect_handlers then Inr () else Inr ())"

fun execute_effect_list :: "string list \<Rightarrow> ctx_dict \<Rightarrow> string option \<Rightarrow> string list" where
  "execute_effect_list [] ctx user = []"
| "execute_effect_list (e # es) ctx user =
     (case execute_single_effect e ctx user of
        Inr u \<Rightarrow> e # execute_effect_list es ctx user
      | Inl err \<Rightarrow> execute_effect_list es ctx user)"

definition execute_effects :: "StateTransition \<Rightarrow> ctx_dict \<Rightarrow> string option \<Rightarrow> string list" where
  "execute_effects transition ctx user = execute_effect_list (effects transition) ctx user"

record transition_result =
  r_from_state :: string
  r_to_state :: string
  r_timestamp :: datetime
  r_user_id :: "string option"
  r_effects_executed :: "string list"
  r_requires_confirmation :: bool

text \<open>
  \<open>transition\<close>; \<open>now\<close> is the value of \<open>datetime.utcnow()\<close> at the call. The second
  parse of the two statuses cannot fail once \<open>can_transition\<close> has returned true; its
  error is kept as a branch, without the text of the inner exception.
\<close>

definition transition ::
  "string \<Rightarrow> string \<Rightarrow> ctx_dict option \<Rightarrow> string option \<Rightarrow> datetime \<Rightarrow> error + transition_result" where
  "transition from_s to_s ctx user now =
     (case can_transition from_s to_s ctx of
        Inl e \<Rightarrow> Inl e
      | Inr False \<Rightarrow> Inl (ValueError (''Invalid transition: '' @ from_s @ '' -> '' @ to_s))
      | Inr True \<Rightarrow>
          (case OperationStatus_of from_s of
             None \<Rightarrow> Inl (ValueError ''Invalid status values'')
           | Some from_status \<Rightarrow>
               (case OperationStatus_of to_s of
                  None \<Rightarrow> Inl (ValueError ''Invalid status values'')
                | Some to_status \<Rightarrow>
                    (case find_transition (define_transitions from_status) to_status of
                       None \<Rightarrow> Inl (ValueError (''Transition not found: '' @ from_s @ '' -> '' @ to_s))
                     | Some t \<Rightarrow>
                         Inr \<lparr>r_from_state = from_s, r_to_state = to_s, r_timestamp = now,
                              r_user_id = user,
                              r_effects_executed = execute_effects t (context_or_empty ctx) user,
                              r_requires_confirmation = requires_confirmation t\<rparr>))))"

section \<open>Operations and partial updates\<close>

text \<open>
  The ORM class \<open>MESOperation\<close> (and the schema \<open>MESOperationCreate\<close>, which has the
  same fields). Decimal columns are rationals. \<open>timestamp_ms\<close> and \<open>change_type\<close> are
  optional in the object and checked by the NOT NULL constraint when a row is written.
\<close>

record MESOperation =
  order_no :: string
  asset_id :: int
  operation_no :: string
  reference_url :: "string option"
  status :: "string option"
  activity_code :: "string option"
  activity_description :: "string option"
  workplace_name :: "string option"
  workplace_group :: "string option"
  qty_desired :: "int option"
  qty_processed :: "int option"
  qty_scrap :: "int option"
  planned_start_at :: "datetime option"
  planned_end_at :: "datetime option"
  actual_start_at :: "datetime option"
  actual_end_at :: "datetime option"
  t_target_processing_min :: "rat option"
  t_target_setup_min :: "rat option"
  t_target_lead_min :: "rat option"
  t_actual_processing_min :: "rat option"
  t_actual_setup_min :: "rat option"
  t_actual_lead_min :: "rat option"
  timestamp_ms :: "datetime option"
  change_type :: "string option"

text \<open>
  A field of \<open>MESOperationUpdate\<close>: not set by the caller, or set to a value or to
  \<open>None\<close>. \<open>model_dump(exclude_unset=True)\<close> keeps exactly the fields that are set.
\<close>

datatype 'a upd = Unset | Provided "'a option"

record MESOperationUpdate =
  u_reference_url :: "string upd"
  u_status :: "string upd"
  u_activity_code :: "string upd"
  u_activity_description :: "string upd"
  u_workplace_name :: "string upd"
  u_workplace_group :: "string upd"
  u_qty_desired :: "int upd"
  u_qty_processed :: "int upd"
  u_qty_scrap :: "int upd"
  u_planned_start_at :: "datetime upd"
  u_planned_end_at :: "datetime upd"
  u_actual_start_at :: "datetime upd"
  u_actual_end_at :: "datetime upd"
  u_t_target_processing_min :: "rat upd"
  u_t_target_setup_min :: "rat upd"
  u_t_target_lead_min :: "rat upd"
  u_t_actual_processing_min :: "rat upd"
  u_t_actual_setup_min :: "rat upd"
  u_t_actual_lead_min :: "rat upd"
  u_timestamp_ms :: "datetime upd"
  u_change_type :: "string upd"

text \<open>The update with no field set.\<close>

definition empty_update :: MESOperationUpdate where
  "empty_update =
     \<lparr>u_reference_url = Unset, u_status = Unset, u_activity_code = Unset,
      u_activity_description = Unset, u_workplace_name = Unset, u_workplace_group = Unset,
      u_qty_desired = Unset, u_qty_processed = Unset, u_qty_scrap = Unset,
      u_planned_start_at = Unset, u_planned_end_at = Unset, u_actual_start_at = Unset,
      u_actual_end_at = Unset, u_t_target_processing_min = Unset, u_t_target_setup_min = Unset,
      u_t_target_lead_min = Unset, u_t_actual_processing_min = Unset,
      u_t_actual_setup_min = Unset, u_t_actual_lead_min = Unset, u_timestamp_ms = Unset,
      u_change_type = Unset\<rparr>"

text \<open>\<open>update_dict.get(field, default)\<close>.\<close>

definition upd_get :: "'a upd \<Rightarrow> 'a option \<Rightarrow> 'a option" where
  "upd_get u d = (case u of Unset \<Rightarrow> d | Provided v \<Rightarrow> v)"

text \<open>Truthiness of an optional number: \<open>None\<close> and zero are false.\<close>

definition qty_truthy :: "int option \<Rightarrow> bool" where
  "qty_truthy q = (case q of None \<Rightarrow> False | Some n \<Rightarrow> n \<noteq> 0)"

definition dec_truthy :: "rat option \<Rightarrow> bool" where
  "dec_truthy q = (case q of None \<Rightarrow> False | Some x \<Rightarrow> x \<noteq> 0)"

text \<open>The loop \<open>for field, value in update_data.items(): setattr(db_operation, field, value)\<close>.\<close>

definition apply_update :: "MESOperation \<Rightarrow> MESOperationUpdate \<Rightarrow> MESOperation" where
  "apply_update op u =
     op\<lparr>reference_url := upd_get (u_reference_url u) (reference_url op),
        status := upd_get (u_status u) (status op),
        activity_code := upd_get (u_activity_code u) (activity_code op),
        activity_description := upd_get (u_activity_description u) (activity_description op),
        workplace_name := upd_get (u_workplace_name u) (workplace_name op),
        workplace_group := upd_get (u_workplace_group u) (workplace_group op),
        qty_desired := upd_get (u_qty_desired u) (qty_desired op),
        qty_processed := upd_get (u_qty_processed u) (qty_processed op),
        qty_scrap := upd_get (u_qty_scrap u) (qty_scrap op),
        planned_start_at := upd_get (u_planned_start_at u) (planned_start_at op),
        planned_end_at := upd_get (u_planned_end_at u) (planned_end_at op),
        actual_start_at := upd_get (u_actual_start_at u) (actual_start_at op),
        actual_end_at := upd_get (u_actual_end_at u) (actual_end_at op),
        t_target_processing_min := upd_get (u_t_target_processing_min u) (t_target_processing_min op),
        t_target_setup_min := upd_get (u_t_target_setup_min u) (t_target_setup_min op),
        t_target_lead_min := upd_get (u_t_target_lead_min u) (t_target_lead_min op),
        t_actual_processing_min := upd_get (u_t_actual_processing_min u) (t_actual_processing_min op),
        t_actual_setup_min := upd_get (u_t_actual_setup_min u) (t_actual_setup_min op),
        t_actual_lead_min := upd_get (u_t_actual_lead_min u) (t_actual_lead_min op),
        timestamp_ms := upd_get (u_timestamp_ms u) (timestamp_ms op),
        change_type := upd_get (u_change_type u) (change_type op)\<rparr>"

section \<open>The storage layer (\<open>app/crud/mes_operation.py\<close>)\<close>

text \<open>
  The table \<open>mes_operations\<close>: at most one row for each primary key. A commit writes the
  pending change or, when a constraint of the table is violated, raises IntegrityError
  and leaves the table as it was.
\<close>

type_synonym db = "operation_key \<rightharpoonup> MESOperation"

definition key_of :: "MESOperation \<Rightarrow> operation_key" where
  "key_of op = (order_no op, asset_id op, operation_no op)"

definition not_null_ok :: "MESOperation \<Rightarrow> bool" where
  "not_null_ok op = (timestamp_ms op \<noteq> None \<and> change_type op \<noteq> None)"

definition get_operation :: "db \<Rightarrow> operation_key \<Rightarrow> MESOperation option" where
  "get_operation d k = d k"

text \<open>
  The quantity check that \<open>create_operation\<close> and \<open>update_operation\<close> both make:
  \<open>if processed and desired and processed > desired: raise\<close>.
\<close>

definition crud_quantity_check :: "int option \<Rightarrow> int option \<Rightarrow> error + unit" where
  "crud_quantity_check processed desired =
     (case (processed, desired) of
        (Some p, Some q) \<Rightarrow>
          if qty_truthy processed \<and> qty_truthy desired \<and> p > q
          then Inl (InvalidQuantityException (QtyProcessedExceedsQtyDesired p q))
          else Inr ()
      | _ \<Rightarrow> Inr ())"

definition create_operation :: "db \<Rightarrow> MESOperation \<Rightarrow> (error + MESOperation) \<times> db" where
  "create_operation d operation =
     (case crud_quantity_check (qty_processed operation) (qty_desired operation) of
        Inl e \<Rightarrow> (Inl e, d)
      | Inr u \<Rightarrow>
          if d (key_of operation) \<noteq> None \<or> \<not> not_null_ok operation then (Inl IntegrityError, d)
          else (Inr operation, d(key_of operation \<mapsto> operation)))"

definition update_operation ::
  "db \<Rightarrow> operation_key \<Rightarrow> MESOperationUpdate \<Rightarrow> (error + MESOperation option) \<times> db" where
  "update_operation d k operation_update =
     (case get_operation d k of
        None \<Rightarrow> (Inr None, d)
      | Some db_operation \<Rightarrow>
          (case crud_quantity_check
                  (upd_get (u_qty_processed operation_update) (qty_processed db_operation))
                  (upd_get (u_qty_desired operation_update) (qty_desired db_operation)) of
             Inl e \<Rightarrow> (Inl e, d)
           | Inr u \<Rightarrow>
               let updated = apply_update db_operation operation_update in
               if \<not> not_null_ok updated then (Inl IntegrityError, d)
               else (Inr (Some updated), d(k \<mapsto> updated))))"

definition delete_operation :: "db \<Rightarrow> operation_key \<Rightarrow> (error + bool) \<times> db" where
  "delete_operation d k =
     (case get_operation d k of
        None \<Rightarrow> (Inr False, d)
      | Some db_operation \<Rightarrow> (Inr True, d(k := None)))"

section \<open>The operation service (\<open>app/services/mes_operation_service.py\<close>)\<close>

text \<open>\<open>VALID_STATE_TRANSITIONS.get(current_status, [])\<close>.\<close>

definition VALID_STATE_TRANSITIONS :: "string option \<Rightarrow> string list" where
  "VALID_STATE_TRANSITIONS current_status =
     (if current_status = Some ''PLANNED'' then [''RELEASED'', ''CANCELLED'']
      else if current_status = Some ''RELEASED'' then [''IN_PROGRESS'', ''CANCELLED'', ''ON_HOLD'']
      else if current_status = Some ''IN_PROGRESS'' then [''FINISHED'', ''ON_HOLD'', ''CANCELLED'']
      else if current_status = Some ''ON_HOLD'' then [''IN_PROGRESS'', ''CANCELLED'']
      else [])"

definition get_by_id :: "db \<Rightarrow> operation_key \<Rightarrow> MESOperation option" where
  "get_by_id d k = get_operation d k"

text \<open>\<open>_handle_integrity_error\<close> turns an IntegrityError into the generic exception.\<close>

definition handle_integrity_error :: "string \<Rightarrow> error" where
  "handle_integrity_error what =
     MESOperationException (''Database constraint violation during '' @ what) ''integrity_violation''"

definition validate_operation_data :: "MESOperation \<Rightarrow> error + unit" where
  "validate_operation_data operation_data =
     (case (case (qty_processed operation_data, qty_desired operation_data) of
              (Some p, Some q) \<Rightarrow>
                if qty_truthy (qty_processed operation_data) \<and> qty_truthy (qty_desired operation_data)
                   \<and> p > q
                then Inl (InvalidQuantityException (ProcessedExceedsDesired p q))
                else Inr ()
            | _ \<Rightarrow> Inr ()) of
        Inl e \<Rightarrow> Inl e
      | Inr u \<Rightarrow>
          (case (planned_start_at operation_data, planned_end_at operation_data) of
             (Some s, Some e) \<Rightarrow>
               if s \<ge> e
               then Inl (InvalidOperationStateException (Some ''time_validation'')
                           ''Planned start time must be before end time'')
               else Inr ()
           | _ \<Rightarrow> Inr ()))"

text \<open>The text that an f-string prints for an optional string.\<close>

definition str_of :: "string option \<Rightarrow> string" where
  "str_of s = (case s of None \<Rightarrow> ''None'' | Some x \<Rightarrow> x)"

definition validate_state_transition :: "string option \<Rightarrow> string option \<Rightarrow> error + unit" where
  "validate_state_transition current_status new_status =
     (if current_status = new_status then Inr ()
      else if \<not> (case new_status of
                     None \<Rightarrow> False
                   | Some n \<Rightarrow> n \<in> set (VALID_STATE_TRANSITIONS current_status))
      then Inl (InvalidOperationStateException current_status (''transition to '' @ str_of new_status))
      else Inr ())"

text \<open>
  \<open>if "status" in update_dict: self._validate_state_transition(existing.status,
  update_dict["status"])\<close>.
\<close>

definition validate_status_update :: "MESOperation \<Rightarrow> MESOperationUpdate \<Rightarrow> error + unit" where
  "validate_status_update existing update_dict =
     (case u_status update_dict of
        Unset \<Rightarrow> Inr ()
      | Provided new_status \<Rightarrow> validate_state_transition (status existing) new_status)"

definition validate_quantities_update :: "MESOperation \<Rightarrow> MESOperationUpdate \<Rightarrow> error + unit" where
  "validate_quantities_update existing update_dict =
     (let new_qty_processed = upd_get (u_qty_processed update_dict) (qty_processed existing);
          new_qty_desired = upd_get (u_qty_desired update_dict) (qty_desired existing);
          new_qty_scrap = upd_get (u_qty_scrap update_dict) (qty_scrap existing)
      in case (case (new_qty_processed, new_qty_desired) of
                 (Some p, Some q) \<Rightarrow>
                   if qty_truthy new_qty_processed \<and> qty_truthy new_qty_desired \<and> p > q
                   then Inl (InvalidQuantityException (ProcessedExceedsDesired p q))
                   else Inr ()
               | _ \<Rightarrow> Inr ()) of
           Inl e \<Rightarrow> Inl e
         | Inr u \<Rightarrow>
             (case (new_qty_scrap, new_qty_processed) of
                (Some s, Some p) \<Rightarrow>
                  if qty_truthy new_qty_scrap \<and> qty_truthy new_qty_processed \<and> s > p
                  then Inl (InvalidQuantityException (ScrapExceedsProcessed s p))
                  else Inr ()
              | _ \<Rightarrow> Inr ()))"

definition create :: "db \<Rightarrow> MESOperation \<Rightarrow> (error + MESOperation) \<times> db" where
  "create d operation_data =
     (case get_by_id d (key_of operation_data) of
        Some existing \<Rightarrow> (Inl (DuplicateOperationException (key_of operation_data)), d)
      | None \<Rightarrow>
          (case validate_operation_data operation_data of
             Inl e \<Rightarrow> (Inl e, d)
           | Inr u \<Rightarrow>
               (case create_operation d operation_data of
                  (Inl IntegrityError, d') \<Rightarrow> (Inl (handle_integrity_error ''operation creation''), d')
                | r \<Rightarrow> r)))"

definition update ::
  "db \<Rightarrow> operation_key \<Rightarrow> MESOperationUpdate \<Rightarrow> (error + MESOperation option) \<times> db" where
  "update d k update_data =
     (case get_by_id d k of
        None \<Rightarrow> (Inl (OperationNotFoundException k), d)
      | Some existing \<Rightarrow>
          (case validate_status_update existing update_data of
             Inl e \<Rightarrow> (Inl e, d)
           | Inr u \<Rightarrow>
               (case validate_quantities_update existing update_data of
                  Inl e \<Rightarrow> (Inl e, d)
                | Inr u \<Rightarrow>
                    (case update_operation d k update_data of
                       (Inl IntegrityError, d') \<Rightarrow> (Inl (handle_integrity_error ''operation update''), d')
                     | r \<Rightarrow> r))))"

definition delete :: "db \<Rightarrow> operation_key \<Rightarrow> (error + bool) \<times> db" where
  "delete d k =
     (case get_by_id d k of
        None \<Rightarrow> (Inr False, d)
      | Some existing \<Rightarrow>
          if status existing = Some ''FINISHED''
          then (Inl (InvalidOperationStateException (status existing) ''delete finished operation''), d)
          else (case delete_operation d k of
                  (Inl IntegrityError, d') \<Rightarrow> (Inl (handle_integrity_error ''operation deletion''), d')
                | r \<Rightarrow> r))"

text \<open>
  \<open>start_operation\<close> and \<open>finish_operation\<close> read the clock twice; \<open>now1\<close> and \<open>now2\<close>
  are the two values of \<open>datetime.utcnow()\<close>. Building the \<open>MESOperationUpdate\<close>
  validates the fields: a negative \<open>qty_processed\<close> raises pydantic's ValidationError.
\<close>

definition start_operation ::
  "db \<Rightarrow> operation_key \<Rightarrow> datetime \<Rightarrow> datetime \<Rightarrow> (error + MESOperation option) \<times> db" where
  "start_operation d k now1 now2 =
     (case get_by_id d k of
        None \<Rightarrow> (Inl (OperationNotFoundException k), d)
      | Some operation \<Rightarrow>
          if status operation \<notin> {Some ''RELEASED'', Some ''ON_HOLD''}
          then (Inl (InvalidOperationStateException (status operation) ''start operation''), d)
          else update d k
                 (empty_update\<lparr>u_status := Provided (Some ''IN_PROGRESS''),
                                u_actual_start_at := Provided (Some now1),
                                u_timestamp_ms := Provided (Some now2),
                                u_change_type := Provided (Some ''UPDATE'')\<rparr>))"

definition finish_update :: "int option \<Rightarrow> datetime \<Rightarrow> datetime \<Rightarrow> MESOperationUpdate" where
  "finish_update final_quantity now1 now2 =
     (let update_dict = empty_update\<lparr>u_status := Provided (Some ''FINISHED''),
                                     u_actual_end_at := Provided (Some now1),
                                     u_timestamp_ms := Provided (Some now2),
                                     u_change_type := Provided (Some ''UPDATE'')\<rparr>
      in case final_quantity of
           None \<Rightarrow> update_dict
         | Some q \<Rightarrow> update_dict\<lparr>u_qty_processed := Provided (Some q)\<rparr>)"

definition finish_operation ::
  "db \<Rightarrow> operation_key \<Rightarrow> int option \<Rightarrow> datetime \<Rightarrow> datetime \<Rightarrow> (error + MESOperation option) \<times> db" where
  "finish_operation d k final_quantity now1 now2 =
     (case get_by_id d k of
        None \<Rightarrow> (Inl (OperationNotFoundException k), d)
      | Some operation \<Rightarrow>
          if status operation \<noteq> Some ''IN_PROGRESS''
          then (Inl (InvalidOperationStateException (status operation) ''finish operation''), d)
          else (case final_quantity of
                  Some q \<Rightarrow>
                    if q < 0 then (Inl (ValidationError ''qty_processed''), d)
                    else update d k (finish_update final_quantity now1 now2)
                | None \<Rightarrow> update d k (finish_update final_quantity now1 now2)))"

section \<open>Python floats\<close>

text \<open>
  A Python float is an IEEE 754 binary64 number: a finite value, an infinity or NaN. A
  finite float is modelled by the rational number it denotes; the two zeros \<open>0.0\<close> and
  \<open>-0.0\<close>, which compare equal and both raise as divisors, are one value.
\<close>

datatype pyfloat = Finite rat | PosInf | NegInf | NaN

text \<open>The power \<open>2\<^sup>k\<close> for an integer \<open>k\<close>.\<close>

definition pow2 :: "int \<Rightarrow> rat" where
  "pow2 k = (if 0 \<le> k then 2 ^ nat k else 1 / 2 ^ nat (- k))"

text \<open>The nearest integer, a tie going to the even neighbour.\<close>

definition round_half_even :: "rat \<Rightarrow> int" where
  "round_half_even x =
     (let lower = \<lfloor>x\<rfloor>; rest = x - of_int lower
      in if rest < 1 / 2 then lower
         else if 1 / 2 < rest then lower + 1
         else if even lower then lower else lower + 1)"

text \<open>
  For \<open>a > 0\<close>, the exponent \<open>e\<close> with \<open>2\<^sup>e \<le> a < 2\<^sup>e\<^sup>+\<^sup>1\<close>: the bit lengths of numerator
  and denominator give it up to one, and a comparison decides.
\<close>

definition binary_exponent :: "rat \<Rightarrow> int" where
  "binary_exponent a =
     (let (p, q) = quotient_of a; d = bitlen p - bitlen q
      in if pow2 d \<le> a then d else d - 1)"

text \<open>
  Rounding a rational number to binary64, to nearest with ties to even, as the conversions
  and the arithmetic of floats do. Below \<open>2\<^sup>-\<^sup>1\<^sup>0\<^sup>2\<^sup>2\<close> the values are subnormal, multiples of
  \<open>2\<^sup>-\<^sup>1\<^sup>0\<^sup>7\<^sup>4\<close>, so that a magnitude of at most \<open>2\<^sup>-\<^sup>1\<^sup>0\<^sup>7\<^sup>5\<close> becomes zero; a normal value has
  53 significant bits; a result of \<open>2\<^sup>1\<^sup>0\<^sup>2\<^sup>4\<close> or more is an infinity.
\<close>

definition round_binary64 :: "rat \<Rightarrow> pyfloat" where
  "round_binary64 x =
     (if x = 0 then Finite 0
      else
        let a = \<bar>x\<bar>;
            quantum = (if a < pow2 (- 1022) then pow2 (- 1074)
                       else pow2 (binary_exponent a - 52));
            r = of_int (round_half_even (a / quantum)) * quantum
        in if pow2 1024 \<le> r then (if 0 < x then PosInf else NegInf)
           else Finite (if 0 < x then r else - r))"

text \<open>\<open>float(d)\<close> for a Decimal: the nearest float, an infinity when \<open>d\<close> is too large.\<close>

definition float_of_decimal :: "rat \<Rightarrow> pyfloat" where
  "float_of_decimal d = round_binary64 d"

text \<open>\<open>float(n)\<close> for an integer: the nearest float, OverflowError when \<open>n\<close> is too large.\<close>

definition float_of_int :: "int \<Rightarrow> error + pyfloat" where
  "float_of_int n =
     (case round_binary64 (of_int n) of
        Finite r \<Rightarrow> Inr (Finite r)
      | _ \<Rightarrow> Inl OverflowError)"

text \<open>
  Float division: a zero divisor raises ZeroDivisionError, whatever the dividend; otherwise
  the IEEE quotient, which may be an infinity or NaN and is never an error.
\<close>

fun py_truediv :: "pyfloat \<Rightarrow> pyfloat \<Rightarrow> error + pyfloat" where
  "py_truediv a (Finite y) =
     (if y = 0 then Inl ZeroDivisionError
      else case a of
             Finite x \<Rightarrow> Inr (round_binary64 (x / y))
           | PosInf \<Rightarrow> Inr (if 0 < y then PosInf else NegInf)
           | NegInf \<Rightarrow> Inr (if 0 < y then NegInf else PosInf)
           | NaN \<Rightarrow> Inr NaN)"
| "py_truediv (Finite x) PosInf = Inr (Finite 0)"
| "py_truediv (Finite x) NegInf = Inr (Finite 0)"
| "py_truediv a b = Inr NaN"

text \<open>Float subtraction.\<close>

fun py_sub :: "pyfloat \<Rightarrow> pyfloat \<Rightarrow> pyfloat" where
  "py_sub (Finite x) (Finite y) = round_binary64 (x - y)"
| "py_sub NaN b = NaN"
| "py_sub a NaN = NaN"
| "py_sub PosInf PosInf = NaN"
| "py_sub NegInf NegInf = NaN"
| "py_sub PosInf b = PosInf"
| "py_sub NegInf b = NegInf"
| "py_sub a PosInf = NegInf"
| "py_sub a NegInf = PosInf"

text \<open>\<open>a < b\<close> on floats: false whenever an operand is NaN.\<close>

fun py_lt :: "pyfloat \<Rightarrow> pyfloat \<Rightarrow> bool" where
  "py_lt (Finite x) (Finite y) = (x < y)"
| "py_lt NaN b = False"
| "py_lt a NaN = False"
| "py_lt NegInf NegInf = False"
| "py_lt NegInf b = True"
| "py_lt a NegInf = False"
| "py_lt PosInf b = False"
| "py_lt a PosInf = True"

text \<open>\<open>min(a, b)\<close>: the first argument unless the second is smaller.\<close>

definition py_min :: "pyfloat \<Rightarrow> pyfloat \<Rightarrow> pyfloat" where
  "py_min a b = (if py_lt b a then b else a)"

text \<open>
  \<open>round(x, n)\<close> for \<open>n \<ge> 0\<close>: an infinity or NaN is returned as it is; a finite float is
  rounded at \<open>n\<close> decimals, half to even on its exact value, and the result is the nearest
  float (OverflowError if that is no finite float).
\<close>

definition py_round :: "pyfloat \<Rightarrow> nat \<Rightarrow> error + pyfloat" where
  "py_round x n =
     (case x of
        Finite r \<Rightarrow>
          (case round_binary64 (of_int (round_half_even (r * 10 ^ n)) / 10 ^ n) of
             Finite v \<Rightarrow> Inr (Finite v)
           | _ \<Rightarrow> Inl OverflowError)
      | _ \<Rightarrow> Inr x)"

section \<open>Derived metrics (\<open>app/domain/manufacturing_rules.py\<close>)\<close>

text \<open>
  The Decimal columns hold finite numbers (rationals); the guards of
  \<open>calculate_operation_metrics\<close> test them as Decimals, the divisions work on the floats
  that \<open>float()\<close> makes of them.
\<close>

type_synonym metrics = "string \<rightharpoonup> pyfloat"

definition efficiency_metric :: "MESOperation \<Rightarrow> metrics \<Rightarrow> error + metrics" where
  "efficiency_metric operation m =
     (case (t_target_processing_min operation, t_actual_processing_min operation) of
        (Some target, Some actual) \<Rightarrow>
          if dec_truthy (Some target) \<and> dec_truthy (Some actual) then
            if actual > 0 then
              (case py_truediv (float_of_decimal target) (float_of_decimal actual) of
                 Inl e \<Rightarrow> Inl e
               | Inr efficiency \<Rightarrow>
                   (case py_round efficiency 3 of
                      Inl e \<Rightarrow> Inl e
                    | Inr v \<Rightarrow> Inr (m(''processing_efficiency'' \<mapsto> v))))
            else Inr m
          else Inr m
      | _ \<Rightarrow> Inr m)"

definition throughput_metric :: "MESOperation \<Rightarrow> metrics \<Rightarrow> error + metrics" where
  "throughput_metric operation m =
     (case (qty_processed operation, t_actual_processing_min operation) of
        (Some processed, Some actual) \<Rightarrow>
          if qty_truthy (Some processed) \<and> dec_truthy (Some actual) then
            if actual > 0 then
              (case float_of_int processed of
                 Inl e \<Rightarrow> Inl e
               | Inr quantity \<Rightarrow>
                   (case py_truediv (float_of_decimal actual) (Finite 60) of
                      Inl e \<Rightarrow> Inl e
                    | Inr hours \<Rightarrow>
                        (case py_truediv quantity hours of
                           Inl e \<Rightarrow> Inl e
                         | Inr throughput \<Rightarrow>
                             (case py_round throughput 2 of
                                Inl e \<Rightarrow> Inl e
                              | Inr v \<Rightarrow> Inr (m(''throughput_per_hour'' \<mapsto> v))))))
            else Inr m
          else Inr m
      | _ \<Rightarrow> Inr m)"

definition quality_metrics :: "MESOperation \<Rightarrow> metrics \<Rightarrow> error + metrics" where
  "quality_metrics operation m =
     (case (qty_processed operation, qty_scrap operation) of
        (Some processed, Some scrap) \<Rightarrow>
          if qty_truthy (Some processed) \<and> qty_truthy (Some scrap) then
            if processed > 0 then
              (case float_of_int scrap of
                 Inl e \<Rightarrow> Inl e
               | Inr scrapped \<Rightarrow>
                   (case float_of_int processed of
                      Inl e \<Rightarrow> Inl e
                    | Inr quantity \<Rightarrow>
                        (case py_truediv scrapped quantity of
                           Inl e \<Rightarrow> Inl e
                         | Inr scrap_rate \<Rightarrow>
                             (case py_round scrap_rate 4 of
                                Inl e \<Rightarrow> Inl e
                              | Inr v \<Rightarrow>
                                  (case py_round (py_sub (Finite 1) scrap_rate) 4 of
                                     Inl e \<Rightarrow> Inl e
                                   | Inr w \<Rightarrow>
                                       Inr (m(''scrap_rate'' \<mapsto> v, ''quality_rate'' \<mapsto> w)))))))
            else Inr m
          else Inr m
      | _ \<Rightarrow> Inr m)"

text \<open>
  \<open>(actual - planned).total_seconds() / 3600\<close>, for times in microseconds:
  \<open>total_seconds()\<close> is the float nearest to the number of seconds.
\<close>

definition variance_metric ::
  "string \<Rightarrow> datetime option \<Rightarrow> datetime option \<Rightarrow> metrics \<Rightarrow> error + metrics" where
  "variance_metric name planned actual m =
     (case (planned, actual) of
        (Some p, Some a) \<Rightarrow>
          (case py_truediv (round_binary64 (of_int (a - p) / 1000000)) (Finite 3600) of
             Inl e \<Rightarrow> Inl e
           | Inr variance \<Rightarrow>
               (case py_round variance 2 of
                  Inl e \<Rightarrow> Inl e
                | Inr v \<Rightarrow> Inr (m(name \<mapsto> v))))
      | _ \<Rightarrow> Inr m)"

definition completion_metric :: "MESOperation \<Rightarrow> metrics \<Rightarrow> error + metrics" where
  "completion_metric operation m =
     (case (qty_desired operation, qty_processed operation) of
        (Some desired, Some processed) \<Rightarrow>
          if qty_truthy (Some desired) \<and> qty_truthy (Some processed) then
            (case float_of_int processed of
               Inl e \<Rightarrow> Inl e
             | Inr quantity \<Rightarrow>
                 (case float_of_int desired of
                    Inl e \<Rightarrow> Inl e
                  | Inr wanted \<Rightarrow>
                      (case py_truediv quantity wanted of
                         Inl e \<Rightarrow> Inl e
                       | Inr completion \<Rightarrow>
                           (case py_round (py_min completion (Finite 1)) 3 of
                              Inl e \<Rightarrow> Inl e
                            | Inr v \<Rightarrow> Inr (m(''completion_percentage'' \<mapsto> v))))))
          else Inr m
      | _ \<Rightarrow> Inr m)"

definition calculate_operation_metrics :: "MESOperation \<Rightarrow> error + metrics" where
  "calculate_operation_metrics operation =
     (case efficiency_metric operation Map.empty of
        Inl e \<Rightarrow> Inl e
      | Inr m1 \<Rightarrow>
     (case throughput_metric operation m1 of
        Inl e \<Rightarrow> Inl e
      | Inr m2 \<Rightarrow>
     (case quality_metrics operation m2 of
        Inl e \<Rightarrow> Inl e
      | Inr m3 \<Rightarrow>
     (case variance_metric ''start_time_variance_hours''
             (planned_start_at operation) (actual_start_at operation) m3 of
        Inl e \<Rightarrow> Inl e
      | Inr m4 \<Rightarrow>
     (case variance_metric ''end_time_variance_hours''
             (planned_end_at operation) (actual_end_at operation) m4 of
        Inl e \<Rightarrow> Inl e
      | Inr m5 \<Rightarrow> completion_metric operation m5)))))"

section \<open>Example data\<close>

text \<open>
  The operation of the specification's scenario: key \<open>("WO-1", 1, "0010")\<close>, desired
  quantity 100, processed quantity 0, status PLANNED; and a table that holds just it.
\<close>

definition example_key :: operation_key where
  "example_key = (''WO-1'', 1, ''0010'')"

definition example_operation :: MESOperation where
  "example_operation =
     \<lparr>order_no = ''WO-1'', asset_id = 1, operation_no = ''0010'',
      reference_url = None, status = Some ''PLANNED'', activity_code = None,
      activity_description = None, workplace_name = None, workplace_group = None,
      qty_desired = Some 100, qty_processed = Some 0, qty_scrap = None,
      planned_start_at = None, planned_end_at = None, actual_start_at = None,
      actual_end_at = None, t_target_processing_min = None, t_target_setup_min = None,
      t_target_lead_min = None, t_actual_processing_min = None, t_actual_setup_min = None,
      t_actual_lead_min = None, timestamp_ms = Some 0, change_type = Some ''INSERT''\<rparr>"

definition example_db :: db where
  "example_db = [example_key \<mapsto> example_operation]"

text \<open>
  \<open>Decimal('1E-400')\<close>, a positive number below the smallest positive float, and an operation
  with target processing time 10 minutes and this actual processing time.
\<close>

definition tiny_duration :: rat where
  "tiny_duration = 1 / 10 ^ 400"

definition underflow_operation :: MESOperation where
  "underflow_operation =
     example_operation\<lparr>t_target_processing_min := Some 10,
                       t_actual_processing_min := Some tiny_duration\<rparr>"

section \<open>Properties of the state machine\<close>

lemma OperationStatus_of_value: "OperationStatus_of (status_value s) = Some s"
  by (cases s) (simp_all add: OperationStatus_of_def)

lemma find_transition_self: "find_transition (define_transitions s) s = None"
  by (cases s) (simp_all add: find_transition_def)

text \<open>
  Claim C2, as stated: for every target state and every context, \<open>can_transition\<close> from
  FINISHED and from CANCELLED is false. It fails when the target is the terminal state
  itself, because the same-state test comes before the lookup of the edge.
\<close>

theorem terminal_same_state_counterexample:
  "can_transition ''FINISHED'' ''FINISHED'' None = Inr True"
  by (simp add: can_transition_def OperationStatus_of_def)

text \<open>
  Claim C2, amended: for every target other than the terminal state itself (a status or
  any other string) and every context, \<open>can_transition\<close> from FINISHED and from CANCELLED
  returns false, and the table lists no outgoing transition for either state.
\<close>

theorem terminal_states_no_outgoing:
  assumes "from_s = ''FINISHED'' \<or> from_s = ''CANCELLED''" and "to_s \<noteq> from_s"
  shows "can_transition from_s to_s ctx = Inr False \<and> get_valid_transitions from_s = []"
  using assms
  by (auto simp: can_transition_def get_valid_transitions_def OperationStatus_of_def
      find_transition_def split: option.splits)

theorem terminal_states_no_outgoing_witness:
  "(''FINISHED'' = ''FINISHED'' \<or> ''FINISHED'' = ''CANCELLED'') \<and> ''PLANNED'' \<noteq> ''FINISHED''
   \<and> can_transition ''FINISHED'' ''PLANNED'' None = Inr False
   \<and> get_valid_transitions ''FINISHED'' = []"
  using terminal_states_no_outgoing [of "''FINISHED''" "''PLANNED''" None] by simp

text \<open>
  Claim C3: for each of the six statuses and every context, \<open>can_transition\<close> from the
  status to itself returns true.
\<close>

theorem can_transition_same_state:
  "can_transition (status_value s) (status_value s) ctx = Inr True"
  by (simp add: can_transition_def OperationStatus_of_value)

text \<open>
  Claim C4: whenever \<open>can_transition\<close> returns false, \<open>transition\<close> with the same
  arguments raises the invalid-transition error and returns no transition record. The
  witness is the edge from PLANNED to RELEASED with the machine reported DOWN, where the
  precondition \<open>machine_available\<close> is false.
\<close>

theorem transition_raises_when_cannot:
  assumes "can_transition from_s to_s ctx = Inr False"
  shows "transition from_s to_s ctx user now
           = Inl (ValueError (''Invalid transition: '' @ from_s @ '' -> '' @ to_s))"
  using assms by (simp add: transition_def)

theorem transition_raises_when_cannot_witness:
  "can_transition ''PLANNED'' ''RELEASED'' (Some [''machine_status'' \<mapsto> PyStr ''DOWN'']) = Inr False
   \<and> transition ''PLANNED'' ''RELEASED'' (Some [''machine_status'' \<mapsto> PyStr ''DOWN'']) (Some ''op1'') 0
       = Inl (ValueError ''Invalid transition: PLANNED -> RELEASED'')"
proof -
  have blocked:
    "can_transition ''PLANNED'' ''RELEASED'' (Some [''machine_status'' \<mapsto> PyStr ''DOWN'']) = Inr False"
    by (simp add: can_transition_def OperationStatus_of_def find_transition_def
        check_conditions_def condition_checkers_def dict_get_def context_or_empty_def)
  show ?thesis
    using blocked transition_raises_when_cannot [OF blocked, of "Some ''op1''" 0] by simp
qed

text \<open>
  Claim C10: for each of the six statuses and every context, \<open>transition\<close> from the status
  to itself raises an error, since the table has no edge from a status to itself, although
  \<open>can_transition\<close> returns true for the same arguments.
\<close>

theorem transition_same_state_raises:
  "transition (status_value s) (status_value s) ctx user now
     = Inl (ValueError (''Transition not found: '' @ status_value s @ '' -> '' @ status_value s))
   \<and> can_transition (status_value s) (status_value s) ctx = Inr True"
  by (simp add: transition_def can_transition_def OperationStatus_of_value find_transition_self)

section \<open>Properties of the operation service\<close>

lemma example_lookup: "get_by_id example_db example_key = Some example_operation"
  by (simp add: get_by_id_def get_operation_def example_db_def)

lemma update_success_fields:
  assumes "update d k u = (Inr (Some updated), d')" and "get_by_id d k = Some existing"
  shows "updated = apply_update existing u \<and> d' = d(k \<mapsto> updated)"
  using assms
  by (auto simp: update_def update_operation_def Let_def get_by_id_def
      split: option.splits sum.splits if_splits error.splits prod.splits)

lemma finish_update_fields:
  "u_status (finish_update fq now1 now2) = Provided (Some ''FINISHED'')
   \<and> u_actual_end_at (finish_update fq now1 now2) = Provided (Some now1)
   \<and> u_qty_processed (finish_update fq now1 now2)
       = (case fq of None \<Rightarrow> Unset | Some q \<Rightarrow> Provided (Some q))"
  by (simp add: finish_update_def empty_update_def split: option.splits)

text \<open>
  Claim C1, as stated: every \<open>create\<close> and every \<open>update\<close> whose processed quantity
  exceeds the desired quantity, both present, fails with InvalidQuantity and persists
  nothing. Two inputs show that it fails. A \<open>create\<close> for a key that is already stored
  fails with DuplicateOperation, because the duplicate test comes first. A \<open>create\<close> with
  desired quantity 0 and processed quantity 5 is accepted and stored, because the check
  \<open>if qty_processed and qty_desired\<close> treats a quantity of zero like a missing one.
\<close>

theorem processed_over_desired_counterexample:
  "create example_db (example_operation\<lparr>qty_processed := Some 150\<rparr>)
     = (Inl (DuplicateOperationException example_key), example_db)
   \<and> create Map.empty (example_operation\<lparr>qty_desired := Some 0, qty_processed := Some 5\<rparr>)
     = (Inr (example_operation\<lparr>qty_desired := Some 0, qty_processed := Some 5\<rparr>),
        [example_key \<mapsto> example_operation\<lparr>qty_desired := Some 0, qty_processed := Some 5\<rparr>])"
  by (simp add: create_def get_by_id_def get_operation_def example_db_def key_of_def
      example_operation_def example_key_def validate_operation_data_def qty_truthy_def
      create_operation_def crud_quantity_check_def not_null_ok_def)

text \<open>
  Claim C1, amended: when both quantities are present and not zero and the processed
  quantity exceeds the desired one, \<open>create\<close> of an operation whose key is not stored yet
  fails with InvalidQuantity, and so does \<open>update\<close> of a stored operation whose status
  change, if the update has one, passes the transition check (the quantities of an update
  are the supplied ones, else the stored ones); in both cases the table is left as it was.
\<close>

theorem processed_over_desired_rejected:
  "(get_by_id d (key_of operation_data) = None
      \<and> qty_processed operation_data = Some p \<and> qty_desired operation_data = Some q
      \<and> p \<noteq> 0 \<and> q \<noteq> 0 \<and> q < p
    \<longrightarrow> create d operation_data = (Inl (InvalidQuantityException (ProcessedExceedsDesired p q)), d))
   \<and> (get_by_id d k = Some existing \<and> validate_status_update existing u = Inr ()
      \<and> upd_get (u_qty_processed u) (qty_processed existing) = Some p
      \<and> upd_get (u_qty_desired u) (qty_desired existing) = Some q
      \<and> p \<noteq> 0 \<and> q \<noteq> 0 \<and> q < p
    \<longrightarrow> update d k u = (Inl (InvalidQuantityException (ProcessedExceedsDesired p q)), d))"
  by (simp add: create_def update_def validate_operation_data_def validate_quantities_update_def
      qty_truthy_def)

theorem processed_over_desired_rejected_witness:
  "get_by_id Map.empty (key_of (example_operation\<lparr>qty_processed := Some 150\<rparr>)) = None
   \<and> create Map.empty (example_operation\<lparr>qty_processed := Some 150\<rparr>)
       = (Inl (InvalidQuantityException (ProcessedExceedsDesired 150 100)), Map.empty)
   \<and> get_by_id example_db example_key = Some example_operation
   \<and> validate_status_update example_operation (empty_update\<lparr>u_qty_processed := Provided (Some 150)\<rparr>) = Inr ()
   \<and> update example_db example_key (empty_update\<lparr>u_qty_processed := Provided (Some 150)\<rparr>)
       = (Inl (InvalidQuantityException (ProcessedExceedsDesired 150 100)), example_db)"
proof -
  have a: "get_by_id Map.empty (key_of (example_operation\<lparr>qty_processed := Some 150\<rparr>)) = None"
    by (simp add: get_by_id_def get_operation_def)
  have b: "qty_processed (example_operation\<lparr>qty_processed := Some 150\<rparr>) = Some 150
           \<and> qty_desired (example_operation\<lparr>qty_processed := Some 150\<rparr>) = Some 100"
    by (simp add: example_operation_def)
  have c: "validate_status_update example_operation (empty_update\<lparr>u_qty_processed := Provided (Some 150)\<rparr>) = Inr ()"
    by (simp add: validate_status_update_def empty_update_def)
  have e: "upd_get (u_qty_processed (empty_update\<lparr>u_qty_processed := Provided (Some 150)\<rparr>))
             (qty_processed example_operation) = Some 150
           \<and> upd_get (u_qty_desired (empty_update\<lparr>u_qty_processed := Provided (Some 150)\<rparr>))
             (qty_desired example_operation) = Some 100"
    by (simp add: upd_get_def empty_update_def example_operation_def)
  show ?thesis
    using a b c e example_lookup
      processed_over_desired_rejected [of Map.empty "example_operation\<lparr>qty_processed := Some 150\<rparr>"
        150 100 example_key example_operation "empty_update\<lparr>u_qty_processed := Provided (Some 150)\<rparr>"]
      processed_over_desired_rejected [of example_db "example_operation\<lparr>qty_processed := Some 150\<rparr>"
        150 100 example_key example_operation "empty_update\<lparr>u_qty_processed := Provided (Some 150)\<rparr>"]
    by simp
qed




text \<open>
  Claim C6: when \<open>update\<close> of a stored operation is rejected with any error, nothing is
  written: the table is the one before the call, and fetching the key returns the operation
  unchanged. The witness is the update to processed quantity 150 of the operation whose
  desired quantity is 100.
\<close>

theorem rejected_update_writes_nothing:
  assumes "get_by_id d k = Some operation" and "update d k u = (Inl e, d')"
  shows "d' = d \<and> get_by_id d' k = Some operation"
proof -
  have "d' = d"
    using assms(2)
    by (auto simp: update_def update_operation_def Let_def
        split: option.splits sum.splits if_splits error.splits prod.splits)
  with assms(1) show ?thesis by simp
qed

theorem rejected_update_writes_nothing_witness:
  "get_by_id example_db example_key = Some example_operation
   \<and> fst (update example_db example_key (empty_update\<lparr>u_qty_processed := Provided (Some 150)\<rparr>))
       = Inl (InvalidQuantityException (ProcessedExceedsDesired 150 100))
   \<and> snd (update example_db example_key (empty_update\<lparr>u_qty_processed := Provided (Some 150)\<rparr>))
       = example_db
   \<and> get_by_id (snd (update example_db example_key (empty_update\<lparr>u_qty_processed := Provided (Some 150)\<rparr>)))
        example_key = Some example_operation"
proof -
  let ?u = "empty_update\<lparr>u_qty_processed := Provided (Some 150)\<rparr>"
  have a: "get_by_id example_db example_key = Some example_operation"
    by (rule example_lookup)
  have b: "fst (update example_db example_key ?u)
             = Inl (InvalidQuantityException (ProcessedExceedsDesired 150 100))"
    by (simp add: update_def a validate_status_update_def empty_update_def
        validate_quantities_update_def upd_get_def example_operation_def qty_truthy_def)
  have c: "update example_db example_key ?u
             = (Inl (InvalidQuantityException (ProcessedExceedsDesired 150 100)),
                snd (update example_db example_key ?u))"
    using b by (metis prod.collapse)
  show ?thesis
    using a b rejected_update_writes_nothing [OF a c] by simp
qed

text \<open>
  Claim C7, as stated: \<open>delete\<close> of a key under which nothing is stored fails with NotFound.
  It returns \<open>False\<close> instead and raises nothing.
\<close>

theorem delete_absent_counterexample:
  "delete Map.empty example_key = (Inr False, Map.empty)"
  by (simp add: delete_def get_by_id_def get_operation_def)

text \<open>
  Claim C7, amended: \<open>delete\<close> of a key under which nothing is stored returns \<open>False\<close> and
  changes nothing; for a stored operation with status FINISHED it fails with
  InvalidOperationState and the operation stays in place; for any other stored operation it
  returns \<open>True\<close>, and fetching the key afterwards returns nothing.
\<close>

theorem delete_outcomes:
  "(get_by_id d k = None \<longrightarrow> delete d k = (Inr False, d))
   \<and> (\<forall>existing. get_by_id d k = Some existing \<and> status existing = Some ''FINISHED'' \<longrightarrow>
        delete d k = (Inl (InvalidOperationStateException (Some ''FINISHED'') ''delete finished operation''), d)
        \<and> get_by_id (snd (delete d k)) k = Some existing)
   \<and> (\<forall>existing. get_by_id d k = Some existing \<and> status existing \<noteq> Some ''FINISHED'' \<longrightarrow>
        fst (delete d k) = Inr True \<and> get_by_id (snd (delete d k)) k = None)"
  by (auto simp: delete_def delete_operation_def get_by_id_def get_operation_def)

theorem delete_outcomes_witness:
  "get_by_id Map.empty example_key = None
   \<and> delete Map.empty example_key = (Inr False, Map.empty)
   \<and> get_by_id [example_key \<mapsto> example_operation\<lparr>status := Some ''FINISHED''\<rparr>] example_key
       = Some (example_operation\<lparr>status := Some ''FINISHED''\<rparr>)
   \<and> delete [example_key \<mapsto> example_operation\<lparr>status := Some ''FINISHED''\<rparr>] example_key
       = (Inl (InvalidOperationStateException (Some ''FINISHED'') ''delete finished operation''),
          [example_key \<mapsto> example_operation\<lparr>status := Some ''FINISHED''\<rparr>])
   \<and> get_by_id example_db example_key = Some example_operation
   \<and> status example_operation \<noteq> Some ''FINISHED''
   \<and> fst (delete example_db example_key) = Inr True
   \<and> get_by_id (snd (delete example_db example_key)) example_key = None"
proof -
  let ?fin = "example_operation\<lparr>status := Some ''FINISHED''\<rparr>"
  have a: "get_by_id Map.empty example_key = None"
    by (simp add: get_by_id_def get_operation_def)
  have b: "get_by_id [example_key \<mapsto> ?fin] example_key = Some ?fin \<and> status ?fin = Some ''FINISHED''"
    by (simp add: get_by_id_def get_operation_def)
  have c: "get_by_id example_db example_key = Some example_operation
           \<and> status example_operation \<noteq> Some ''FINISHED''"
    by (simp add: example_lookup) (simp add: example_operation_def)
  show ?thesis
    using a b c delete_outcomes [of Map.empty example_key]
      delete_outcomes [of "[example_key \<mapsto> ?fin]" example_key]
      delete_outcomes [of example_db example_key]
    by simp
qed

text \<open>
  Claim C8: for a stored operation whose status is not IN_PROGRESS, \<open>finish_operation\<close>
  fails with InvalidOperationState (error type \<open>invalid_state_transition\<close>) and the table
  is unchanged. When the status is IN_PROGRESS and the final quantity, if given, is not
  negative, \<open>finish_operation\<close> is the \<open>update\<close> that sets the status to FINISHED and
  \<open>actual_end_at\<close> to the current time and that sets \<open>qty_processed\<close> exactly when a final
  quantity is given; when that update succeeds, the stored operation has these values.
\<close>

theorem finish_requires_in_progress:
  assumes "get_by_id d k = Some existing"
  shows "(status existing \<noteq> Some ''IN_PROGRESS'' \<longrightarrow>
            finish_operation d k final_quantity now1 now2
              = (Inl (InvalidOperationStateException (status existing) ''finish operation''), d)
            \<and> error_type (InvalidOperationStateException (status existing) ''finish operation'')
                = ''invalid_state_transition'')
       \<and> (status existing = Some ''IN_PROGRESS'' \<and> (\<forall>q. final_quantity = Some q \<longrightarrow> 0 \<le> q) \<longrightarrow>
            finish_operation d k final_quantity now1 now2
              = update d k (finish_update final_quantity now1 now2)
            \<and> u_status (finish_update final_quantity now1 now2) = Provided (Some ''FINISHED'')
            \<and> u_actual_end_at (finish_update final_quantity now1 now2) = Provided (Some now1)
            \<and> u_qty_processed (finish_update final_quantity now1 now2)
                = (case final_quantity of None \<Rightarrow> Unset | Some q \<Rightarrow> Provided (Some q))
            \<and> (\<forall>updated d'. finish_operation d k final_quantity now1 now2 = (Inr (Some updated), d') \<longrightarrow>
                  status updated = Some ''FINISHED'' \<and> actual_end_at updated = Some now1
                  \<and> qty_processed updated
                      = (case final_quantity of None \<Rightarrow> qty_processed existing | Some q \<Rightarrow> Some q)
                  \<and> get_by_id d' k = Some updated))"
proof (intro conjI impI)
  assume "status existing \<noteq> Some ''IN_PROGRESS''"
  then show "finish_operation d k final_quantity now1 now2
              = (Inl (InvalidOperationStateException (status existing) ''finish operation''), d)"
    using assms by (simp add: finish_operation_def)
next
  show "error_type (InvalidOperationStateException (status existing) ''finish operation'')
          = ''invalid_state_transition''"
    by simp
next
  assume h: "status existing = Some ''IN_PROGRESS'' \<and> (\<forall>q. final_quantity = Some q \<longrightarrow> 0 \<le> q)"
  then show eq: "finish_operation d k final_quantity now1 now2
              = update d k (finish_update final_quantity now1 now2)"
    using assms by (auto simp: finish_operation_def split: option.splits)
  show "u_status (finish_update final_quantity now1 now2) = Provided (Some ''FINISHED'')"
    using finish_update_fields by blast
  show "u_actual_end_at (finish_update final_quantity now1 now2) = Provided (Some now1)"
    using finish_update_fields by blast
  show "u_qty_processed (finish_update final_quantity now1 now2)
          = (case final_quantity of None \<Rightarrow> Unset | Some q \<Rightarrow> Provided (Some q))"
    using finish_update_fields by blast
  show "\<forall>updated d'. finish_operation d k final_quantity now1 now2 = (Inr (Some updated), d') \<longrightarrow>
                  status updated = Some ''FINISHED'' \<and> actual_end_at updated = Some now1
                  \<and> qty_processed updated
                      = (case final_quantity of None \<Rightarrow> qty_processed existing | Some q \<Rightarrow> Some q)
                  \<and> get_by_id d' k = Some updated"
  proof (intro allI impI)
    fix updated d'
    assume "finish_operation d k final_quantity now1 now2 = (Inr (Some updated), d')"
    then have "update d k (finish_update final_quantity now1 now2) = (Inr (Some updated), d')"
      using eq by simp
    then have r: "updated = apply_update existing (finish_update final_quantity now1 now2)
                  \<and> d' = d(k \<mapsto> updated)"
      using update_success_fields assms by blast
    then show "status updated = Some ''FINISHED'' \<and> actual_end_at updated = Some now1
                  \<and> qty_processed updated
                      = (case final_quantity of None \<Rightarrow> qty_processed existing | Some q \<Rightarrow> Some q)
                  \<and> get_by_id d' k = Some updated"
      by (simp add: apply_update_def upd_get_def finish_update_fields get_by_id_def
          get_operation_def split: option.splits)
  qed
qed

theorem finish_requires_in_progress_witness:
  "get_by_id example_db example_key = Some example_operation
   \<and> status example_operation \<noteq> Some ''IN_PROGRESS''
   \<and> finish_operation example_db example_key (Some 100) 5 6
       = (Inl (InvalidOperationStateException (Some ''PLANNED'') ''finish operation''), example_db)
   \<and> get_by_id [example_key \<mapsto> example_operation\<lparr>status := Some ''IN_PROGRESS''\<rparr>] example_key
       = Some (example_operation\<lparr>status := Some ''IN_PROGRESS''\<rparr>)
   \<and> finish_operation [example_key \<mapsto> example_operation\<lparr>status := Some ''IN_PROGRESS''\<rparr>]
         example_key (Some 100) 5 6
       = update [example_key \<mapsto> example_operation\<lparr>status := Some ''IN_PROGRESS''\<rparr>]
           example_key (finish_update (Some 100) 5 6)"
proof -
  let ?run = "example_operation\<lparr>status := Some ''IN_PROGRESS''\<rparr>"
  have a: "get_by_id example_db example_key = Some example_operation"
    by (rule example_lookup)
  have b: "status example_operation = Some ''PLANNED''"
    by (simp add: example_operation_def)
  have c: "get_by_id [example_key \<mapsto> ?run] example_key = Some ?run"
    by (simp add: get_by_id_def get_operation_def)
  have pre: "status ?run = Some ''IN_PROGRESS'' \<and> (\<forall>q. Some (100::int) = Some q \<longrightarrow> 0 \<le> q)"
    by simp
  have not_running: "status example_operation \<noteq> Some ''IN_PROGRESS''"
    by (simp add: b)
  have r1: "finish_operation example_db example_key (Some 100) 5 6
       = (Inl (InvalidOperationStateException (status example_operation) ''finish operation''), example_db)"
    by (rule conjunct1 [OF mp [OF conjunct1 [OF finish_requires_in_progress [OF a, of "Some 100" 5 6]]
          not_running]])
  have r2: "finish_operation [example_key \<mapsto> ?run] example_key (Some 100) 5 6
       = update [example_key \<mapsto> ?run] example_key (finish_update (Some 100) 5 6)"
    by (rule conjunct1 [OF mp [OF conjunct2 [OF finish_requires_in_progress [OF c, of "Some 100" 5 6]]
          pre]])
  show ?thesis
    apply (intro conjI)
        apply (rule a)
       apply (rule not_running)
      apply (simp only: r1 b)
     apply (rule c)
    apply (rule r2)
    done
qed

section \<open>Properties of the derived metrics\<close>

lemma pow2_pos: "0 < pow2 k"
  by (simp add: pow2_def)

lemma pow2_negative: "k < 0 \<Longrightarrow> pow2 k = 1 / 2 ^ nat (- k)"
  by (simp add: pow2_def)

lemma pow2_halve: "k < 0 \<Longrightarrow> pow2 (k - 1) = pow2 k / 2"
proof -
  assume neg: "k < 0"
  then have "nat (- (k - 1)) = Suc (nat (- k))"
    by simp
  with neg show ?thesis
    by (simp add: pow2_negative)
qed

lemma pow2_negative_mono: "k < l \<Longrightarrow> l < 0 \<Longrightarrow> pow2 k < pow2 l"
proof -
  assume less: "k < l" and neg: "l < 0"
  then have "(2::rat) ^ nat (- l) < 2 ^ nat (- k)"
    by (intro power_strict_increasing) simp_all
  then have "1 / (2::rat) ^ nat (- k) < 1 / 2 ^ nat (- l)"
    by (intro frac_less2) simp_all
  with less neg show ?thesis
    by (simp add: pow2_negative)
qed

lemma round_half_even_small: "0 \<le> x \<Longrightarrow> x < 1 / 2 \<Longrightarrow> round_half_even x = 0"
proof -
  assume a: "0 \<le> x" and b: "x < 1 / 2"
  have "\<lfloor>x\<rfloor> = 0" using a b by (simp add: floor_eq_iff)
  then show ?thesis using b by (simp add: round_half_even_def Let_def)
qed

lemma round_binary64_underflow:
  assumes "0 < x" and "x < pow2 (- 1075)"
  shows "round_binary64 x = Finite 0"
proof -
  have "pow2 (- 1075) < pow2 (- 1022)"
    by (rule pow2_negative_mono) simp_all
  then have sub: "\<bar>x\<bar> < pow2 (- 1022)"
    using assms by simp
  have half: "pow2 (- 1075) = pow2 (- 1074) / 2"
    using pow2_halve [of "- 1074"] by simp
  have "x / pow2 (- 1074) < 1 / 2"
    using assms pow2_pos [of "- 1074"] by (simp add: half pos_divide_less_eq)
  moreover have "0 \<le> x / pow2 (- 1074)"
    using assms pow2_pos [of "- 1074"] by simp
  ultimately have "round_half_even (\<bar>x\<bar> / pow2 (- 1074)) = 0"
    using assms round_half_even_small by simp
  then show ?thesis
    using assms sub pow2_pos [of 1024] by (simp add: round_binary64_def Let_def not_le)
qed

lemma tiny_duration_pos: "0 < tiny_duration"
  unfolding tiny_duration_def by (rule divide_pos_pos) (rule zero_less_one, rule zero_less_power, simp)

lemma tiny_duration_small: "tiny_duration < pow2 (- 1075)"
proof -
  have "(2::rat) ^ 1075 < 2 ^ (3 * 400)"
    by (rule power_strict_increasing) simp_all
  also have "(2::rat) ^ (3 * 400) = (2 ^ 3) ^ 400"
    by (rule power_mult)
  also have "(2::rat) ^ 3 = 8"
    by simp
  also have "(8::rat) ^ 400 < 10 ^ 400"
    by (rule power_strict_mono) simp_all
  finally have less: "(2::rat) ^ 1075 < 10 ^ 400" .
  have pos: "(0::rat) < 2 ^ 1075"
    by (rule zero_less_power) simp
  have n: "nat (- (- 1075)) = 1075"
    by simp
  have "pow2 (- 1075) = 1 / 2 ^ nat (- (- 1075))"
    by (rule pow2_negative) simp
  then have p: "pow2 (- 1075) = 1 / 2 ^ 1075"
    by (simp only: n)
  have "tiny_duration = 1 / 10 ^ 400"
    by (rule tiny_duration_def)
  also have "\<dots> < 1 / 2 ^ 1075"
    using pos less by (rule frac_less2 [OF zero_less_one order_refl])
  also have "\<dots> = pow2 (- 1075)"
    by (rule p [symmetric])
  finally show ?thesis .
qed

lemma tiny_rounds_to_zero: "float_of_decimal tiny_duration = Finite 0"
  unfolding float_of_decimal_def
  by (rule round_binary64_underflow [OF tiny_duration_pos tiny_duration_small])

lemma efficiency_metric_other:
  "efficiency_metric operation m = Inr m' \<Longrightarrow> k \<noteq> ''processing_efficiency'' \<Longrightarrow> m' k = m k"
  by (auto simp: efficiency_metric_def split: option.splits if_splits sum.splits)

lemma efficiency_metric_omitted:
  "efficiency_metric operation m = Inr m' \<Longrightarrow>
   t_target_processing_min operation = None \<or> t_actual_processing_min operation = None
     \<or> t_actual_processing_min operation = Some 0 \<Longrightarrow> m' = m"
  by (auto simp: efficiency_metric_def dec_truthy_def split: option.splits if_splits)

lemma throughput_metric_other:
  "throughput_metric operation m = Inr m' \<Longrightarrow> k \<noteq> ''throughput_per_hour'' \<Longrightarrow> m' k = m k"
  by (auto simp: throughput_metric_def split: option.splits if_splits sum.splits)

lemma throughput_metric_omitted:
  "throughput_metric operation m = Inr m' \<Longrightarrow>
   qty_processed operation = None \<or> t_actual_processing_min operation = None
     \<or> t_actual_processing_min operation = Some 0 \<Longrightarrow> m' = m"
  by (auto simp: throughput_metric_def dec_truthy_def split: option.splits if_splits)

lemma quality_metrics_other:
  "quality_metrics operation m = Inr m' \<Longrightarrow> k \<noteq> ''scrap_rate'' \<Longrightarrow> k \<noteq> ''quality_rate'' \<Longrightarrow>
   m' k = m k"
  by (auto simp: quality_metrics_def split: option.splits if_splits sum.splits)

lemma quality_metrics_omitted:
  "quality_metrics operation m = Inr m' \<Longrightarrow>
   qty_scrap operation = None \<or> qty_processed operation = None
     \<or> qty_processed operation = Some 0 \<Longrightarrow> m' = m"
  by (auto simp: quality_metrics_def qty_truthy_def split: option.splits if_splits)

lemma variance_metric_other:
  "variance_metric name planned actual m = Inr m' \<Longrightarrow> k \<noteq> name \<Longrightarrow> m' k = m k"
  by (auto simp: variance_metric_def split: option.splits if_splits sum.splits)

lemma completion_metric_other:
  "completion_metric operation m = Inr m' \<Longrightarrow> k \<noteq> ''completion_percentage'' \<Longrightarrow> m' k = m k"
  by (auto simp: completion_metric_def split: option.splits if_splits sum.splits)

lemma completion_metric_omitted:
  "completion_metric operation m = Inr m' \<Longrightarrow>
   qty_processed operation = None \<or> qty_desired operation = None
     \<or> qty_desired operation = Some 0 \<Longrightarrow> m' = m"
  by (auto simp: completion_metric_def qty_truthy_def split: option.splits if_splits)

lemma metrics_guarded_fields_omitted:
  assumes "calculate_operation_metrics operation = Inr m"
  shows "(t_target_processing_min operation = None \<or> t_actual_processing_min operation = None
          \<or> t_actual_processing_min operation = Some 0 \<longrightarrow> m ''processing_efficiency'' = None)
     \<and> (qty_processed operation = None \<or> t_actual_processing_min operation = None
          \<or> t_actual_processing_min operation = Some 0 \<longrightarrow> m ''throughput_per_hour'' = None)
     \<and> (qty_scrap operation = None \<or> qty_processed operation = None
          \<or> qty_processed operation = Some 0 \<longrightarrow> m ''scrap_rate'' = None \<and> m ''quality_rate'' = None)
     \<and> (qty_processed operation = None \<or> qty_desired operation = None
          \<or> qty_desired operation = Some 0 \<longrightarrow> m ''completion_percentage'' = None)"
proof -
  from assms obtain m1 m2 m3 m4 m5 where
    e1: "efficiency_metric operation Map.empty = Inr m1" and
    e2: "throughput_metric operation m1 = Inr m2" and
    e3: "quality_metrics operation m2 = Inr m3" and
    e4: "variance_metric ''start_time_variance_hours''
           (planned_start_at operation) (actual_start_at operation) m3 = Inr m4" and
    e5: "variance_metric ''end_time_variance_hours''
           (planned_end_at operation) (actual_end_at operation) m4 = Inr m5" and
    e6: "completion_metric operation m5 = Inr m"
    unfolding calculate_operation_metrics_def by (auto split: sum.splits)
  note k1 = efficiency_metric_other [OF e1]
  note k2 = throughput_metric_other [OF e2]
  note k3 = quality_metrics_other [OF e3]
  note k4 = variance_metric_other [OF e4]
  note k5 = variance_metric_other [OF e5]
  note k6 = completion_metric_other [OF e6]
  have a: "m ''processing_efficiency'' = None"
    if "t_target_processing_min operation = None \<or> t_actual_processing_min operation = None
          \<or> t_actual_processing_min operation = Some 0"
  proof -
    have "m1 = Map.empty" using efficiency_metric_omitted [OF e1 that] .
    then show ?thesis by (simp add: k2 k3 k4 k5 k6)
  qed
  have b: "m ''throughput_per_hour'' = None"
    if "qty_processed operation = None \<or> t_actual_processing_min operation = None
          \<or> t_actual_processing_min operation = Some 0"
  proof -
    have "m2 = m1" using throughput_metric_omitted [OF e2 that] .
    then show ?thesis by (simp add: k1 k3 k4 k5 k6)
  qed
  have c: "m ''scrap_rate'' = None \<and> m ''quality_rate'' = None"
    if "qty_scrap operation = None \<or> qty_processed operation = None
          \<or> qty_processed operation = Some 0"
  proof -
    have "m3 = m2" using quality_metrics_omitted [OF e3 that] .
    then show ?thesis by (simp add: k1 k2 k4 k5 k6)
  qed
  have d: "m ''completion_percentage'' = None"
    if "qty_processed operation = None \<or> qty_desired operation = None
          \<or> qty_desired operation = Some 0"
  proof -
    have "m = m5" using completion_metric_omitted [OF e6 that] .
    then show ?thesis by (simp add: k1 k2 k3 k4 k5)
  qed
  show ?thesis
    using a b c d by blast
qed

text \<open>
  Claim C9: \<open>calculate_operation_metrics\<close> never divides by zero, and leaves out each ratio
  whose denominator is zero or whose operand is missing. The second half holds whenever a
  map is returned (lemma \<open>metrics_guarded_fields_omitted\<close>). The first half fails: the
  guards test the Decimal fields and the divisions work on the floats made of them. For the
  operation with target processing time 10 and actual processing time \<open>1E-400\<close> both guards
  pass, \<open>float()\<close> turns the actual time into \<open>0.0\<close>, and the function raises
  ZeroDivisionError instead of returning a map.
\<close>

theorem metrics_divide_by_zero_on_underflow: "calculate_operation_metrics underflow_operation = Inl ZeroDivisionError"
proof -
  have f: "t_target_processing_min underflow_operation = Some 10
           \<and> t_actual_processing_min underflow_operation = Some tiny_duration"
    by (simp add: underflow_operation_def)
  have ne: "tiny_duration \<noteq> 0"
    using tiny_duration_pos by simp
  have "efficiency_metric underflow_operation Map.empty = Inl ZeroDivisionError"
    by (simp add: efficiency_metric_def f dec_truthy_def tiny_rounds_to_zero tiny_duration_pos ne)
  then show ?thesis
    by (simp add: calculate_operation_metrics_def)
qed

end
